theory Spec2Isabelle
  imports Complex_Main
begin

section \<open>Numeric conventions\<close>

text \<open>
  The programs compute on Python floats. Sample values, thresholds and wall-clock times are
  modelled as HOL reals: every comparison and every arithmetic expression of the source is
  kept as written, the binary rounding error of the individual float operations is not
  modelled.
\<close>

text \<open>\<^verbatim>\<open>np.mean\<close> of a non-empty sequence.\<close>

definition np_mean :: "real list \<Rightarrow> real" where
  "np_mean xs = sum_list xs / real (length xs)"

text \<open>
  Python's \<^verbatim>\<open>round(x, 1)\<close>: the nearest multiple of one tenth, a tie going to the even
  tenth.
\<close>

definition round_half_even :: "real \<Rightarrow> int" where
  "round_half_even y =
     (let n = \<lfloor>y\<rfloor>; f = y - of_int n
      in if f < 1 / 2 then n
         else if 1 / 2 < f then n + 1
         else if even n then n else n + 1)"

definition py_round1 :: "real \<Rightarrow> real" where
  "py_round1 x = of_int (round_half_even (x * 10)) / 10"


section \<open>Calibration (app\_v4\_bp-filter.py and detection\_analysis.py)\<close>

text \<open>
  The globals that \<^verbatim>\<open>finish_calibration\<close> reads or could write: the two settings and the
  dictionary \<^verbatim>\<open>calibration_readings\<close> with its two keys \<^verbatim>\<open>"noise"\<close> and \<^verbatim>\<open>"blinks"\<close>.
  The function is the same, statement for statement, in both files.
\<close>

record calib_state =
  threshold_uv :: real
  cooldown_secs :: real
  noise :: "real list"
  blinks :: "real list"

text \<open>The JSON answer: \<^verbatim>\<open>{"success": ..}\<close>, with \<^verbatim>\<open>"suggested_threshold"\<close> on success only.\<close>

record calib_response =
  success :: bool
  suggested_threshold :: "real option"

definition finish_calibration :: "calib_state \<Rightarrow> calib_response \<times> calib_state" where
  "finish_calibration s =
     (if blinks s = [] then (\<lparr>success = False, suggested_threshold = None\<rparr>, s)
      else
        let avg_blink = np_mean (blinks s);
            avg_noise = (if noise s \<noteq> [] then np_mean (noise s) else 30);
            suggested = avg_noise + (avg_blink - avg_noise) * (6 / 10);
            s' = s\<lparr>threshold_uv := py_round1 suggested, noise := [], blinks := []\<rparr>
        in (\<lparr>success = True, suggested_threshold = Some (threshold_uv s')\<rparr>, s'))"


section \<open>Containers and statistics shared by the detectors\<close>

text \<open>
  \<^verbatim>\<open>collections.deque(maxlen=n).append(x)\<close>: the element goes to the right end and, when
  the deque is then longer than \<^verbatim>\<open>maxlen\<close>, the leftmost element is dropped.
\<close>

definition deque_append :: "nat \<Rightarrow> 'a list \<Rightarrow> 'a \<Rightarrow> 'a list" where
  "deque_append maxlen d x =
     (let d' = d @ [x] in if maxlen < length d' then tl d' else d')"

text \<open>
  \<^verbatim>\<open>np.median\<close>: the middle element of the sorted data, the mean of the two middle ones
  when the length is even. On empty data numpy answers \<^verbatim>\<open>nan\<close>, which is \<open>None\<close> here.
\<close>

definition np_median :: "real list \<Rightarrow> real option" where
  "np_median xs =
     (let s = sort xs; n = length xs
      in if n = 0 then None
         else if odd n then Some (s ! (n div 2))
         else Some ((s ! (n div 2 - 1) + s ! (n div 2)) / 2))"

text \<open>
  Comparisons of a float that may be \<^verbatim>\<open>nan\<close> with a number: every comparison with
  \<^verbatim>\<open>nan\<close> is false.
\<close>

definition nan_gt :: "real option \<Rightarrow> real \<Rightarrow> bool" where
  "nan_gt a b = (case a of None \<Rightarrow> False | Some x \<Rightarrow> b < x)"

definition nan_lt :: "real option \<Rightarrow> real \<Rightarrow> bool" where
  "nan_lt a b = (case a of None \<Rightarrow> False | Some x \<Rightarrow> x < b)"


section \<open>The blink detectors\<close>

text \<open>\<^verbatim>\<open>BLINK_OFF_FACTOR = 0.3\<close>, in app\_v3.py and in app\_v4\_bp-filter.py.\<close>

definition BLINK_OFF_FACTOR :: real where
  "BLINK_OFF_FACTOR = 3 / 10"

text \<open>
  The text of \<^verbatim>\<open>last_event_text\<close>, as the values it is formatted from: app\_v3.py prints the
  time, the magnitude, the baseline, the differential, both thresholds and the cooldown,
  app\_v4\_bp-filter.py the magnitude only.
\<close>

datatype event_text =
    No_events_yet
  | Blink_at real real "real option" "real option" real real real
  | Blink real

text \<open>
  What both detector loops write on an event. \<^verbatim>\<open>blink_active\<close> is the local flag of the loop
  (the state Active), \<^verbatim>\<open>last_blink_ts\<close>, \<^verbatim>\<open>blink_pending\<close> and \<^verbatim>\<open>last_event_text\<close> are the
  globals. An emitted event is the branch that sets \<^verbatim>\<open>blink_pending\<close>; each step returns
  the time stamp of the event it emitted, if any.
\<close>

record trigger =
  blink_active :: bool
  last_blink_ts :: real
  blink_pending :: bool
  last_event_text :: event_text

subsection \<open>app\_v3.py: rolling median baseline, hysteresis and cooldown\<close>

record v3_state = trigger +
  baseline_buf :: "real list"
  signal_buffer :: "real list"

text \<open>
  The body of \<^verbatim>\<open>for v_raw, v_abs in zip(bx, abs_bx)\<close> for one sample, \<^verbatim>\<open>now\<close> being what
  \<^verbatim>\<open>time.time()\<close> answers at that sample. \<^verbatim>\<open>th\<close> and \<^verbatim>\<open>cd\<close> are the copies of
  \<^verbatim>\<open>threshold_uv\<close> and \<^verbatim>\<open>cooldown_secs\<close> taken before the loop, \<^verbatim>\<open>baseline_len\<close> and
  \<^verbatim>\<open>signal_len\<close> the two deque capacities.
\<close>

definition over_on_v3 :: "real \<Rightarrow> real \<Rightarrow> real option \<Rightarrow> bool" where
  "over_on_v3 th_on v_abs diff = (nan_gt diff th_on \<and> th_on < v_abs)"

definition v3_sample ::
  "nat \<Rightarrow> nat \<Rightarrow> real \<Rightarrow> real \<Rightarrow> v3_state \<Rightarrow> real \<times> real \<Rightarrow> v3_state \<times> real option" where
  "v3_sample baseline_len signal_len th cd s x =
     (let v_raw = fst x; now = snd x; v_abs = \<bar>v_raw\<bar>;
          s1 = s\<lparr>baseline_buf := deque_append baseline_len (baseline_buf s) v_abs,
                 signal_buffer := deque_append signal_len (signal_buffer s) v_raw\<rparr>
      in if length (baseline_buf s1) < baseline_len then (s1, None)
         else
           let base_level = np_median (baseline_buf s1);
               diff = map_option (\<lambda>b. v_abs - b) base_level;
               th_on = th;
               th_off = th * BLINK_OFF_FACTOR;
               over_on = over_on_v3 th_on v_abs diff;
               enter = (over_on \<and> \<not> blink_active s1 \<and> cd \<le> now - last_blink_ts s1);
               s2 = (if enter
                     then s1\<lparr>blink_active := True, last_blink_ts := now, blink_pending := True,
                             last_event_text :=
                               Blink_at now v_abs base_level diff th_on th_off cd\<rparr>
                     else s1);
               s3 = (if blink_active s2 \<and> nan_lt diff th_off
                     then s2\<lparr>blink_active := False\<rparr> else s2)
           in (s3, if enter then Some now else None))"

text \<open>The loop over the samples: the states after each sample, and the events emitted.\<close>

fun v3_trace ::
  "nat \<Rightarrow> nat \<Rightarrow> real \<Rightarrow> real \<Rightarrow> v3_state \<Rightarrow> (real \<times> real) list \<Rightarrow> v3_state list" where
  "v3_trace bl sl th cd s [] = []"
| "v3_trace bl sl th cd s (x # xs) =
     fst (v3_sample bl sl th cd s x) # v3_trace bl sl th cd (fst (v3_sample bl sl th cd s x)) xs"

fun v3_events ::
  "nat \<Rightarrow> nat \<Rightarrow> real \<Rightarrow> real \<Rightarrow> v3_state \<Rightarrow> (real \<times> real) list \<Rightarrow> real list" where
  "v3_events bl sl th cd s [] = []"
| "v3_events bl sl th cd s (x # xs) =
     (case snd (v3_sample bl sl th cd s x) of None \<Rightarrow> [] | Some t \<Rightarrow> [t])
       @ v3_events bl sl th cd (fst (v3_sample bl sl th cd s x)) xs"

fun v3_loop ::
  "nat \<Rightarrow> nat \<Rightarrow> real \<Rightarrow> real \<Rightarrow> v3_state \<Rightarrow> (real \<times> real) list \<Rightarrow> v3_state" where
  "v3_loop bl sl th cd s [] = s"
| "v3_loop bl sl th cd s (x # xs) = v3_loop bl sl th cd (fst (v3_sample bl sl th cd s x)) xs"

subsection \<open>app\_v4\_bp-filter.py: hysteresis and cooldown on the filtered magnitude\<close>

text \<open>
  The body of \<^verbatim>\<open>for val in filtered_window[-len(raw_chunk):]\<close> for one sample: the
  band-pass filter has removed the signal's offset, and the magnitude is compared with the
  thresholds directly.
\<close>

definition v4_sample :: "real \<Rightarrow> real \<Rightarrow> trigger \<Rightarrow> real \<times> real \<Rightarrow> trigger \<times> real option" where
  "v4_sample curr_th curr_cd s x =
     (let val = fst x; now = snd x; abs_val = \<bar>val\<bar>
      in if curr_th < abs_val \<and> \<not> blink_active s \<and> curr_cd < now - last_blink_ts s
         then (s\<lparr>blink_active := True, last_blink_ts := now, blink_pending := True,
                 last_event_text := Blink abs_val\<rparr>, Some now)
         else if blink_active s \<and> abs_val < curr_th * BLINK_OFF_FACTOR
         then (s\<lparr>blink_active := False\<rparr>, None)
         else (s, None))"

fun v4_trace :: "real \<Rightarrow> real \<Rightarrow> trigger \<Rightarrow> (real \<times> real) list \<Rightarrow> trigger list" where
  "v4_trace th cd s [] = []"
| "v4_trace th cd s (x # xs) =
     fst (v4_sample th cd s x) # v4_trace th cd (fst (v4_sample th cd s x)) xs"

fun v4_events :: "real \<Rightarrow> real \<Rightarrow> trigger \<Rightarrow> (real \<times> real) list \<Rightarrow> real list" where
  "v4_events th cd s [] = []"
| "v4_events th cd s (x # xs) =
     (case snd (v4_sample th cd s x) of None \<Rightarrow> [] | Some t \<Rightarrow> [t])
       @ v4_events th cd (fst (v4_sample th cd s x)) xs"

subsection \<open>EEG/blink\_detection\_v2.py: mean baseline and a pure time debounce\<close>

definition THRESH_UV :: real where
  "THRESH_UV = 100"

definition MIN_ABS_UV :: real where
  "MIN_ABS_UV = 100"

definition BLINK_DEBOUNCE_S :: real where
  "BLINK_DEBOUNCE_S = 35 / 100"

record v2_state =
  v2_baseline_buf :: "real list"
  v2_last_blink_ts :: real

text \<open>
  The body of \<^verbatim>\<open>for v in bx\<close> in \<^verbatim>\<open>main\<close>; \<^verbatim>\<open>now\<close> is read once for the chunk. The
  event is the UDP datagram. \<^verbatim>\<open>np.mean\<close> of an empty buffer is \<^verbatim>\<open>nan\<close>.
\<close>

definition v2_sample :: "nat \<Rightarrow> real \<Rightarrow> v2_state \<Rightarrow> real \<Rightarrow> v2_state \<times> real option" where
  "v2_sample baseline_len now s v =
     (let val = \<bar>v\<bar>;
          s1 = s\<lparr>v2_baseline_buf := deque_append baseline_len (v2_baseline_buf s) val\<rparr>
      in if length (v2_baseline_buf s1) < baseline_len then (s1, None)
         else
           let base_mean = (if v2_baseline_buf s1 = [] then None
                            else Some (np_mean (v2_baseline_buf s1)));
               diff = map_option (\<lambda>b. val - b) base_mean;
               over = (nan_gt diff THRESH_UV \<and> MIN_ABS_UV < val)
           in if over \<and> BLINK_DEBOUNCE_S \<le> now - v2_last_blink_ts s1
              then (s1\<lparr>v2_last_blink_ts := now\<rparr>, Some now)
              else (s1, None))"

fun v2_events :: "nat \<Rightarrow> real \<Rightarrow> v2_state \<Rightarrow> real list \<Rightarrow> real list" where
  "v2_events bl now s [] = []"
| "v2_events bl now s (v # vs) =
     (case snd (v2_sample bl now s v) of None \<Rightarrow> [] | Some t \<Rightarrow> [t])
       @ v2_events bl now (fst (v2_sample bl now s v)) vs"

fun v2_loop :: "nat \<Rightarrow> real \<Rightarrow> v2_state \<Rightarrow> real list \<Rightarrow> v2_state" where
  "v2_loop bl now s [] = s"
| "v2_loop bl now s (v # vs) = v2_loop bl now (fst (v2_sample bl now s v)) vs"


section \<open>Signal conditioning\<close>

datatype error = ValueError | ZeroDivisionError

text \<open>
  A designed filter, as far as the length checks see it: the number of taps
  \<^verbatim>\<open>max(len(a), len(b))\<close> of its coefficient vectors, and the forward-backward filtering it
  performs on a signal. The arithmetic of the filtering is scipy's and stays a parameter.
\<close>

record filter_coeffs =
  ntaps :: nat
  response :: "real list \<Rightarrow> real list"

text \<open>
  \<^verbatim>\<open>scipy.signal.filtfilt(b, a, x, padlen=..)\<close>: the padding length is \<^verbatim>\<open>padlen\<close> when it
  is given and three times the number of taps otherwise, and a signal that is not longer
  than the padding is refused with a \<^verbatim>\<open>ValueError\<close>.
\<close>

definition filtfilt :: "filter_coeffs \<Rightarrow> nat option \<Rightarrow> real list \<Rightarrow> error + real list" where
  "filtfilt f padlen x =
     (let edge = (case padlen of None \<Rightarrow> 3 * ntaps f | Some p \<Rightarrow> p)
      in if length x \<le> edge then Inl ValueError else Inr (response f x))"

text \<open>app\_v3.py: both filters are designed once, before the loop, and may be \<^verbatim>\<open>None\<close>.\<close>

definition apply_filters_v3 ::
  "real list \<Rightarrow> filter_coeffs option \<Rightarrow> filter_coeffs option \<Rightarrow> error + real list" where
  "apply_filters_v3 x bp nf =
     (case (case nf of None \<Rightarrow> Inr x | Some f \<Rightarrow> filtfilt f (Some 50) x) of
        Inl e \<Rightarrow> Inl e
      | Inr y \<Rightarrow> (case bp of None \<Rightarrow> Inr y | Some f \<Rightarrow> filtfilt f (Some 50) y))"

text \<open>
  The conditioning step of the loop of app\_v3.py:
  \<^verbatim>\<open>bx = apply_filters(bx, fs, bp, nf) if bx.size > 30 else bx\<close>.
\<close>

definition condition_v3 ::
  "real list \<Rightarrow> filter_coeffs option \<Rightarrow> filter_coeffs option \<Rightarrow> error + real list" where
  "condition_v3 bx bp nf = (if 30 < length bx then apply_filters_v3 bx bp nf else Inr bx)"








section \<open>Names for the parts of one detector step\<close>

text \<open>
  The expressions one step of the loop of app\_v3.py evaluates, named so that results can
  speak about them: the baseline window once the sample is appended, the differential
  \<^verbatim>\<open>diff\<close>, the onset condition \<^verbatim>\<open>over_on\<close> on a full window, the exit condition
  \<^verbatim>\<open>diff < th_off\<close> on a full window, and the guard of the entering branch. The two
  recursive predicates say that every sample of a run, taken in the state the loop has
  reached, meets the onset condition, and that none meets the exit condition.
\<close>

definition v3_window :: "nat \<Rightarrow> v3_state \<Rightarrow> real \<times> real \<Rightarrow> real list" where
  "v3_window bl s x = deque_append bl (baseline_buf s) \<bar>fst x\<bar>"

definition v3_diff :: "nat \<Rightarrow> v3_state \<Rightarrow> real \<times> real \<Rightarrow> real option" where
  "v3_diff bl s x = map_option (\<lambda>b. \<bar>fst x\<bar> - b) (np_median (v3_window bl s x))"

definition v3_onset :: "nat \<Rightarrow> real \<Rightarrow> v3_state \<Rightarrow> real \<times> real \<Rightarrow> bool" where
  "v3_onset bl th s x =
     (bl \<le> length (v3_window bl s x) \<and> over_on_v3 th \<bar>fst x\<bar> (v3_diff bl s x))"

definition v3_offset :: "nat \<Rightarrow> real \<Rightarrow> v3_state \<Rightarrow> real \<times> real \<Rightarrow> bool" where
  "v3_offset bl th s x =
     (bl \<le> length (v3_window bl s x) \<and> nan_lt (v3_diff bl s x) (th * BLINK_OFF_FACTOR))"

definition v3_enter :: "nat \<Rightarrow> real \<Rightarrow> real \<Rightarrow> v3_state \<Rightarrow> real \<times> real \<Rightarrow> bool" where
  "v3_enter bl th cd s x =
     (v3_onset bl th s x \<and> \<not> blink_active s \<and> cd \<le> snd x - last_blink_ts s)"

fun v3_all_onset ::
  "nat \<Rightarrow> nat \<Rightarrow> real \<Rightarrow> real \<Rightarrow> v3_state \<Rightarrow> (real \<times> real) list \<Rightarrow> bool" where
  "v3_all_onset bl sl th cd s [] = True"
| "v3_all_onset bl sl th cd s (x # xs) =
     (v3_onset bl th s x \<and> v3_all_onset bl sl th cd (fst (v3_sample bl sl th cd s x)) xs)"

fun v3_no_offset ::
  "nat \<Rightarrow> nat \<Rightarrow> real \<Rightarrow> real \<Rightarrow> v3_state \<Rightarrow> (real \<times> real) list \<Rightarrow> bool" where
  "v3_no_offset bl sl th cd s [] = True"
| "v3_no_offset bl sl th cd s (x # xs) =
     (\<not> v3_offset bl th s x \<and> v3_no_offset bl sl th cd (fst (v3_sample bl sl th cd s x)) xs)"

text \<open>The guard of the entering branch of app\_v4\_bp-filter.py.\<close>

definition v4_enter :: "real \<Rightarrow> real \<Rightarrow> trigger \<Rightarrow> real \<times> real \<Rightarrow> bool" where
  "v4_enter th cd s x = (th < \<bar>fst x\<bar> \<and> \<not> blink_active s \<and> cd < snd x - last_blink_ts s)"

text \<open>The baseline window of EEG/blink\_detection\_v2.py once the sample is appended.\<close>

definition v2_window :: "nat \<Rightarrow> v2_state \<Rightarrow> real \<Rightarrow> real list" where
  "v2_window bl u v = deque_append bl (v2_baseline_buf u) \<bar>v\<bar>"


section \<open>Concrete runs\<close>

text \<open>
  The states both programs start in, a clock that stamps sample \<open>i\<close> at 250 samples per
  second, and the runs of the scenarios, with a baseline window of 40 samples: Scenario A
  (40 samples of 10, a spike of 5 samples of 300, 10 again), Scenario B (a second spike
  0.10 s after the first), the same with the spikes 0.40 s apart, a plateau of samples of
  magnitude 300 spread over a day, and a warm-up on 39 samples of 300. Two more runs have a
  second spike that lasts: Scenario B with a second spike of 70 samples, and a run stamped
  every 20 ms whose second spike of 12 samples starts 0.20 s after the first. For the
  conditioning step there are two designed filters whose response hands the signal back.
\<close>

definition v3_start :: v3_state where
  "v3_start = \<lparr>blink_active = False, last_blink_ts = 0, blink_pending = False,
      last_event_text = No_events_yet, baseline_buf = [], signal_buffer = []\<rparr>"

definition v4_start :: trigger where
  "v4_start = \<lparr>blink_active = False, last_blink_ts = 0, blink_pending = False,
      last_event_text = No_events_yet\<rparr>"

definition clock :: "nat \<Rightarrow> real" where
  "clock i = 1000 + real i / 250"

definition scenario_A :: "(real \<times> real) list" where
  "scenario_A =
     zip (replicate 40 10 @ replicate 5 300 @ replicate 5 10) (map clock [0..<50])"


definition spike :: "(real \<times> real) list" where
  "spike = take 5 (drop 40 scenario_A)"

definition v3_ready :: v3_state where
  "v3_ready = v3_loop 40 2500 150 (35 / 100) v3_start (take 40 scenario_A)"

definition v3_in_blink :: v3_state where
  "v3_in_blink = v3_loop 40 2500 150 (35 / 100) v3_start (take 41 scenario_A)"

definition v4_in_blink :: trigger where
  "v4_in_blink = fst (v4_sample 150 (35 / 100) v4_start (300, clock 40))"



definition plateau :: "(real \<times> real) list" where
  "plateau = [(300, clock 41), (300, 2000), (-300, 90000)]"







definition loud_warm_up :: "(real \<times> real) list" where
  "loud_warm_up = zip (replicate 39 300) (map clock [0..<39])"

definition v2_start :: v2_state where
  "v2_start = \<lparr>v2_baseline_buf = [], v2_last_blink_ts = 0\<rparr>"

definition v3_high_baseline :: v3_state where
  "v3_high_baseline = v3_start\<lparr>baseline_buf := replicate 40 200\<rparr>"


section \<open>Calibration: results\<close>

text \<open>
  C7. When calibration finishes with an empty event-sample set, the answer is the explicit
  failure \<^verbatim>\<open>success = False\<close> and the state, the onset threshold in particular, is
  exactly what it was before the call.
\<close>

theorem finish_calibration_failure:
  "blinks s = [] \<Longrightarrow>
     success (fst (finish_calibration s)) = False \<and>
     snd (finish_calibration s) = s \<and>
     threshold_uv (snd (finish_calibration s)) = threshold_uv s"
  by (simp add: finish_calibration_def)

theorem finish_calibration_failure_witness:
  "blinks \<lparr>threshold_uv = 150, cooldown_secs = 2 / 10, noise = [20, 22], blinks = []\<rparr> = [] \<and>
   success (fst (finish_calibration
     \<lparr>threshold_uv = 150, cooldown_secs = 2 / 10, noise = [20, 22], blinks = []\<rparr>)) = False \<and>
   threshold_uv (snd (finish_calibration
     \<lparr>threshold_uv = 150, cooldown_secs = 2 / 10, noise = [20, 22], blinks = []\<rparr>)) = 150"
  using finish_calibration_failure
    [of "\<lparr>threshold_uv = 150, cooldown_secs = 2 / 10, noise = [20, 22], blinks = []\<rparr>"]
  by simp

lemma round_half_even_near: "\<bar>of_int (round_half_even y) - y\<bar> \<le> 1 / 2"
  unfolding round_half_even_def Let_def
  by (auto simp: abs_le_iff)

lemma py_round1_near: "\<bar>py_round1 x - x\<bar> \<le> 1 / 20"
proof -
  have "\<bar>of_int (round_half_even (x * 10)) - x * 10\<bar> \<le> 1 / 2"
    by (rule round_half_even_near)
  then show ?thesis
    unfolding py_round1_def by (simp add: abs_le_iff field_simps)
qed

text \<open>
  C6 (amended). When calibration finishes with a non-empty event-sample set and a non-empty
  noise-sample set, it succeeds, and the onset threshold it applies is
  \<open>noise_mean + 0.6 * (event_mean - noise_mean)\<close> rounded to one decimal place, hence within
  0.05 of that value; no minimum floor is applied. The answer carries the applied
  threshold, and the cooldown is left as it was (the off factor is a constant of the
  program). The witness is Scenario C: noise samples 20, 22, 18, 19 and event samples
  250, 260 give 160.9.
\<close>

theorem finish_calibration_success:
  "blinks s \<noteq> [] \<Longrightarrow> noise s \<noteq> [] \<Longrightarrow>
     success (fst (finish_calibration s)) = True \<and>
     threshold_uv (snd (finish_calibration s)) =
       py_round1 (np_mean (noise s) + (6 / 10) * (np_mean (blinks s) - np_mean (noise s))) \<and>
     \<bar>threshold_uv (snd (finish_calibration s)) -
        (np_mean (noise s) + (6 / 10) * (np_mean (blinks s) - np_mean (noise s)))\<bar> \<le> 1 / 20 \<and>
     suggested_threshold (fst (finish_calibration s)) =
       Some (threshold_uv (snd (finish_calibration s))) \<and>
     cooldown_secs (snd (finish_calibration s)) = cooldown_secs s"
  using py_round1_near
    [of "np_mean (noise s) + (6 / 10) * (np_mean (blinks s) - np_mean (noise s))"]
  by (simp add: finish_calibration_def Let_def mult.commute)

theorem finish_calibration_scenario_C:
  "blinks \<lparr>threshold_uv = 150, cooldown_secs = 2 / 10,
           noise = [20, 22, 18, 19], blinks = [250, 260]\<rparr> \<noteq> [] \<and>
   noise \<lparr>threshold_uv = 150, cooldown_secs = 2 / 10,
          noise = [20, 22, 18, 19], blinks = [250, 260]\<rparr> \<noteq> [] \<and>
   success (fst (finish_calibration \<lparr>threshold_uv = 150, cooldown_secs = 2 / 10,
          noise = [20, 22, 18, 19], blinks = [250, 260]\<rparr>)) = True \<and>
   threshold_uv (snd (finish_calibration \<lparr>threshold_uv = 150, cooldown_secs = 2 / 10,
          noise = [20, 22, 18, 19], blinks = [250, 260]\<rparr>)) = 1609 / 10 \<and>
   cooldown_secs (snd (finish_calibration \<lparr>threshold_uv = 150, cooldown_secs = 2 / 10,
          noise = [20, 22, 18, 19], blinks = [250, 260]\<rparr>)) = 2 / 10"
  using finish_calibration_success
    [of "\<lparr>threshold_uv = 150, cooldown_secs = 2 / 10,
          noise = [20, 22, 18, 19], blinks = [250, 260]\<rparr>"]
  by (simp add: np_mean_def py_round1_def round_half_even_def Let_def)

text \<open>
  The claim C6 as it was stated fails: with the one noise sample 10 and the one event sample
  20.4 the blend is 16.24 and the applied threshold is 16.2, which is below the blend, so it
  is neither the blend nor the blend raised to some floor.
\<close>

theorem calibrated_threshold_below_blend:
  "threshold_uv (snd (finish_calibration
      \<lparr>threshold_uv = 150, cooldown_secs = 2 / 10, noise = [10], blinks = [204 / 10]\<rparr>)) = 162 / 10 \<and>
   np_mean [10] + (6 / 10) * (np_mean [204 / 10] - np_mean [10]) = 1624 / 100 \<and>
   threshold_uv (snd (finish_calibration
      \<lparr>threshold_uv = 150, cooldown_secs = 2 / 10, noise = [10], blinks = [204 / 10]\<rparr>))
     < np_mean [10] + (6 / 10) * (np_mean [204 / 10] - np_mean [10])"
  by (simp add: finish_calibration_def np_mean_def py_round1_def round_half_even_def Let_def)

text \<open>
  C8. After \<^verbatim>\<open>finish_calibration\<close> returns, both sample sets should be empty. On the failure
  path they are not: the early return leaves the collected noise samples in place, here
  the samples 20 and 22, while the success path (next lemma) empties both sets.
\<close>

theorem failed_calibration_keeps_noise:
  "success (fst (finish_calibration
      \<lparr>threshold_uv = 150, cooldown_secs = 2 / 10, noise = [20, 22], blinks = []\<rparr>)) = False \<and>
   noise (snd (finish_calibration
      \<lparr>threshold_uv = 150, cooldown_secs = 2 / 10, noise = [20, 22], blinks = []\<rparr>)) = [20, 22]"
  by (simp add: finish_calibration_def)

lemma successful_calibration_discards:
  "blinks s \<noteq> [] \<Longrightarrow>
     noise (snd (finish_calibration s)) = [] \<and> blinks (snd (finish_calibration s)) = []"
  by (simp add: finish_calibration_def Let_def)

text \<open>
  C10 (amended). When calibration finishes with a non-empty event-sample set and an empty
  noise-sample set, it still succeeds, with 30 in the place of the noise mean: the applied
  threshold is \<open>30 + 0.6 * (event_mean - 30)\<close> rounded to one decimal place, hence within 0.05
  of that value.
\<close>

theorem finish_calibration_default_noise:
  "blinks s \<noteq> [] \<Longrightarrow> noise s = [] \<Longrightarrow>
     success (fst (finish_calibration s)) = True \<and>
     threshold_uv (snd (finish_calibration s)) =
       py_round1 (30 + (6 / 10) * (np_mean (blinks s) - 30)) \<and>
     \<bar>threshold_uv (snd (finish_calibration s)) -
        (30 + (6 / 10) * (np_mean (blinks s) - 30))\<bar> \<le> 1 / 20"
  using py_round1_near [of "30 + (6 / 10) * (np_mean (blinks s) - 30)"]
  by (simp add: finish_calibration_def Let_def mult.commute)

theorem finish_calibration_default_noise_witness:
  "blinks \<lparr>threshold_uv = 150, cooldown_secs = 2 / 10, noise = [], blinks = [250, 260]\<rparr> \<noteq> [] \<and>
   noise \<lparr>threshold_uv = 150, cooldown_secs = 2 / 10, noise = [], blinks = [250, 260]\<rparr> = [] \<and>
   success (fst (finish_calibration
      \<lparr>threshold_uv = 150, cooldown_secs = 2 / 10, noise = [], blinks = [250, 260]\<rparr>)) = True \<and>
   threshold_uv (snd (finish_calibration
      \<lparr>threshold_uv = 150, cooldown_secs = 2 / 10, noise = [], blinks = [250, 260]\<rparr>)) = 165"
  using finish_calibration_default_noise
    [of "\<lparr>threshold_uv = 150, cooldown_secs = 2 / 10, noise = [], blinks = [250, 260]\<rparr>"]
  by (simp add: np_mean_def py_round1_def round_half_even_def Let_def)

text \<open>
  The claim C10 as it was stated fails: with no noise sample and the one event sample 100.1
  the value \<open>30 + 0.6 * (100.1 - 30)\<close> is 72.06 and the applied threshold is 72.1.
\<close>

theorem default_noise_threshold_is_rounded:
  "success (fst (finish_calibration
      \<lparr>threshold_uv = 150, cooldown_secs = 2 / 10, noise = [], blinks = [1001 / 10]\<rparr>)) = True \<and>
   threshold_uv (snd (finish_calibration
      \<lparr>threshold_uv = 150, cooldown_secs = 2 / 10, noise = [], blinks = [1001 / 10]\<rparr>)) = 721 / 10 \<and>
   30 + (6 / 10) * (np_mean [1001 / 10] - 30) = (7206 / 100 :: real) \<and>
   threshold_uv (snd (finish_calibration
      \<lparr>threshold_uv = 150, cooldown_secs = 2 / 10, noise = [], blinks = [1001 / 10]\<rparr>))
     \<noteq> 30 + (6 / 10) * (np_mean [1001 / 10] - 30)"
  by (simp add: finish_calibration_def np_mean_def py_round1_def round_half_even_def Let_def)


section \<open>The detectors: one step\<close>

lemmas v3_aux_defs = v3_window_def v3_diff_def v3_onset_def v3_offset_def v3_enter_def

lemma v3_sample_event:
  "snd (v3_sample bl sl th cd s x) = (if v3_enter bl th cd s x then Some (snd x) else None)"
  by (simp add: v3_sample_def v3_aux_defs Let_def)

lemma v3_sample_active:
  "blink_active (fst (v3_sample bl sl th cd s x)) =
     ((blink_active s \<or> v3_enter bl th cd s x) \<and> \<not> v3_offset bl th s x)"
  by (auto simp: v3_sample_def v3_aux_defs Let_def)

lemma v3_sample_last_ts:
  "last_blink_ts (fst (v3_sample bl sl th cd s x)) =
     (if v3_enter bl th cd s x then snd x else last_blink_ts s)"
  by (simp add: v3_sample_def v3_aux_defs Let_def)

lemma v3_sample_pending:
  "blink_pending (fst (v3_sample bl sl th cd s x)) =
     (if v3_enter bl th cd s x then True else blink_pending s)"
  by (simp add: v3_sample_def v3_aux_defs Let_def)

lemma v3_sample_text:
  "\<not> v3_enter bl th cd s x \<Longrightarrow>
     last_event_text (fst (v3_sample bl sl th cd s x)) = last_event_text s"
  by (auto simp: v3_sample_def v3_aux_defs Let_def)

lemma v3_sample_buf:
  "baseline_buf (fst (v3_sample bl sl th cd s x)) = v3_window bl s x"
  by (simp add: v3_sample_def v3_aux_defs Let_def)


lemma v3_onset_no_offset: "0 \<le> th \<Longrightarrow> v3_onset bl th s x \<Longrightarrow> \<not> v3_offset bl th s x"
proof -
  assume th: "0 \<le> th" and on: "v3_onset bl th s x"
  from on obtain d where d: "v3_diff bl s x = Some d" "th < d"
    by (auto simp: v3_onset_def over_on_v3_def nan_gt_def split: option.splits)
  have "th * BLINK_OFF_FACTOR \<le> th"
    using th by (simp add: BLINK_OFF_FACTOR_def)
  with d show ?thesis
    by (simp add: v3_offset_def nan_lt_def)
qed

lemma v3_events_active_trace:
  "blink_active s \<Longrightarrow> \<forall>s' \<in> set (v3_trace bl sl th cd s xs). blink_active s' \<Longrightarrow>
     v3_events bl sl th cd s xs = []"
proof (induction xs arbitrary: s)
  case Nil
  then show ?case by simp
next
  case (Cons x xs)
  have "\<not> v3_enter bl th cd s x"
    using Cons.prems(1) by (simp add: v3_enter_def)
  then have "snd (v3_sample bl sl th cd s x) = None"
    by (simp add: v3_sample_event)
  moreover have "v3_events bl sl th cd (fst (v3_sample bl sl th cd s x)) xs = []"
    using Cons.prems(2) by (intro Cons.IH) simp_all
  ultimately show ?case by simp
qed

lemma v3_excursion_one_event:
  "\<forall>s' \<in> set (v3_trace bl sl th cd s xs). blink_active s' \<Longrightarrow>
     length (v3_events bl sl th cd s xs) \<le> 1"
proof (cases xs)
  case Nil
  then show ?thesis by simp
next
  case (Cons x xs')
  assume a: "\<forall>s' \<in> set (v3_trace bl sl th cd s xs). blink_active s'"
  then have "v3_events bl sl th cd (fst (v3_sample bl sl th cd s x)) xs' = []"
    using Cons by (intro v3_events_active_trace) simp_all
  then show ?thesis
    using Cons by (simp split: option.splits)
qed

lemma v3_all_onset_events:
  "0 \<le> th \<Longrightarrow> v3_all_onset bl sl th cd s xs \<Longrightarrow>
     (blink_active s \<longrightarrow> v3_events bl sl th cd s xs = []) \<and>
     length (v3_events bl sl th cd s xs) \<le> 1"
proof (induction xs arbitrary: s)
  case Nil
  then show ?case by simp
next
  case (Cons x xs)
  let ?s' = "fst (v3_sample bl sl th cd s x)"
  from Cons.prems have on: "v3_onset bl th s x" and rest: "v3_all_onset bl sl th cd ?s' xs"
    by simp_all
  have no_off: "\<not> v3_offset bl th s x"
    using Cons.prems(1) on by (rule v3_onset_no_offset)
  have act: "blink_active ?s' = (blink_active s \<or> v3_enter bl th cd s x)"
    using no_off by (simp add: v3_sample_active)
  have IH: "(blink_active ?s' \<longrightarrow> v3_events bl sl th cd ?s' xs = []) \<and>
      length (v3_events bl sl th cd ?s' xs) \<le> 1"
    using Cons.prems(1) rest by (rule Cons.IH)
  show ?case
  proof (cases "v3_enter bl th cd s x")
    case True
    then have "\<not> blink_active s" by (simp add: v3_enter_def)
    moreover have "v3_events bl sl th cd ?s' xs = []"
      using IH act True by simp
    ultimately show ?thesis
      using True by (simp add: v3_sample_event)
  next
    case False
    then show ?thesis
      using IH act by (simp add: v3_sample_event)
  qed
qed


lemma v4_sample_event:
  "snd (v4_sample th cd s x) = (if v4_enter th cd s x then Some (snd x) else None)"
  by (simp add: v4_sample_def v4_enter_def Let_def)

lemma v4_sample_active:
  "blink_active (fst (v4_sample th cd s x)) =
     (v4_enter th cd s x \<or> blink_active s \<and> \<not> \<bar>fst x\<bar> < th * BLINK_OFF_FACTOR)"
  by (auto simp: v4_sample_def v4_enter_def Let_def)

lemma v4_sample_last_ts:
  "last_blink_ts (fst (v4_sample th cd s x)) =
     (if v4_enter th cd s x then snd x else last_blink_ts s)"
  by (simp add: v4_sample_def v4_enter_def Let_def)

lemma v4_sample_quiet:
  "\<not> v4_enter th cd s x \<Longrightarrow>
     blink_pending (fst (v4_sample th cd s x)) = blink_pending s \<and>
     last_event_text (fst (v4_sample th cd s x)) = last_event_text s"
  by (auto simp: v4_sample_def v4_enter_def Let_def)

lemma v4_onset_no_offset: "th < \<bar>v\<bar> \<Longrightarrow> \<not> \<bar>v\<bar> < th * BLINK_OFF_FACTOR"
proof (cases "0 \<le> th")
  case True
  assume "th < \<bar>v\<bar>"
  moreover have "th * BLINK_OFF_FACTOR \<le> th"
    using True by (simp add: BLINK_OFF_FACTOR_def)
  ultimately show ?thesis by linarith
next
  case False
  then have "th * BLINK_OFF_FACTOR < 0"
    by (simp add: BLINK_OFF_FACTOR_def)
  then show ?thesis by linarith
qed

lemma v4_events_active_trace:
  "blink_active s \<Longrightarrow> \<forall>s' \<in> set (v4_trace th cd s xs). blink_active s' \<Longrightarrow>
     v4_events th cd s xs = []"
proof (induction xs arbitrary: s)
  case Nil
  then show ?case by simp
next
  case (Cons x xs)
  have "snd (v4_sample th cd s x) = None"
    using Cons.prems(1) by (simp add: v4_sample_event v4_enter_def)
  moreover have "v4_events th cd (fst (v4_sample th cd s x)) xs = []"
    using Cons.prems(2) by (intro Cons.IH) simp_all
  ultimately show ?case by simp
qed

lemma v4_excursion_one_event:
  "\<forall>s' \<in> set (v4_trace th cd s xs). blink_active s' \<Longrightarrow>
     length (v4_events th cd s xs) \<le> 1"
proof (cases xs)
  case Nil
  then show ?thesis by simp
next
  case (Cons x xs')
  assume "\<forall>s' \<in> set (v4_trace th cd s xs). blink_active s'"
  then have "v4_events th cd (fst (v4_sample th cd s x)) xs' = []"
    using Cons by (intro v4_events_active_trace) simp_all
  then show ?thesis
    using Cons by (simp split: option.splits)
qed

lemma v4_all_onset_events:
  "\<forall>x \<in> set xs. th < \<bar>fst x\<bar> \<Longrightarrow>
     (blink_active s \<longrightarrow> v4_events th cd s xs = []) \<and> length (v4_events th cd s xs) \<le> 1"
proof (induction xs arbitrary: s)
  case Nil
  then show ?case by simp
next
  case (Cons x xs)
  let ?s' = "fst (v4_sample th cd s x)"
  have "th < \<bar>fst x\<bar>" using Cons.prems by simp
  then have act: "blink_active ?s' = (v4_enter th cd s x \<or> blink_active s)"
    using v4_onset_no_offset [of th "fst x"] by (simp add: v4_sample_active)
  have IH: "(blink_active ?s' \<longrightarrow> v4_events th cd ?s' xs = []) \<and>
      length (v4_events th cd ?s' xs) \<le> 1"
    using Cons.prems by (intro Cons.IH) simp
  show ?case
  proof (cases "v4_enter th cd s x")
    case True
    then have "\<not> blink_active s" by (simp add: v4_enter_def)
    moreover have "v4_events th cd ?s' xs = []"
      using IH act True by simp
    ultimately show ?thesis
      using True by (simp add: v4_sample_event)
  next
    case False
    then show ?thesis
      using IH act by (simp add: v4_sample_event)
  qed
qed

text \<open>
  C1. While the state is Active no event is emitted: a step taken in the Active state emits
  nothing and leaves \<^verbatim>\<open>blink_pending\<close>, \<^verbatim>\<open>last_event_text\<close> and \<^verbatim>\<open>last_blink_ts\<close> as they
  were, in app\_v3.py and in app\_v4\_bp-filter.py. Hence a run during which the state is
  Active after every sample (one excursion) emits at most one event, however long it is;
  and so does a run of consecutive samples that all meet the onset condition (in app\_v3.py
  for a threshold that is not negative).
\<close>

theorem no_event_while_active:
  "(blink_active s \<longrightarrow>
      snd (v3_sample bl sl th cd s x) = None \<and>
      blink_pending (fst (v3_sample bl sl th cd s x)) = blink_pending s \<and>
      last_event_text (fst (v3_sample bl sl th cd s x)) = last_event_text s \<and>
      last_blink_ts (fst (v3_sample bl sl th cd s x)) = last_blink_ts s) \<and>
   (blink_active t \<longrightarrow>
      snd (v4_sample th cd t x) = None \<and>
      blink_pending (fst (v4_sample th cd t x)) = blink_pending t \<and>
      last_event_text (fst (v4_sample th cd t x)) = last_event_text t \<and>
      last_blink_ts (fst (v4_sample th cd t x)) = last_blink_ts t) \<and>
   ((\<forall>s' \<in> set (v3_trace bl sl th cd s xs). blink_active s') \<longrightarrow>
      length (v3_events bl sl th cd s xs) \<le> 1) \<and>
   ((\<forall>t' \<in> set (v4_trace th cd t xs). blink_active t') \<longrightarrow>
      length (v4_events th cd t xs) \<le> 1) \<and>
   (0 \<le> th \<and> v3_all_onset bl sl th cd s xs \<longrightarrow> length (v3_events bl sl th cd s xs) \<le> 1) \<and>
   ((\<forall>y \<in> set xs. th < \<bar>fst y\<bar>) \<longrightarrow> length (v4_events th cd t xs) \<le> 1)"
proof (intro conjI impI)
  assume a: "blink_active s"
  then have ne: "\<not> v3_enter bl th cd s x" by (simp add: v3_enter_def)
  show "snd (v3_sample bl sl th cd s x) = None"
    using ne by (simp add: v3_sample_event)
  show "blink_pending (fst (v3_sample bl sl th cd s x)) = blink_pending s"
    using ne by (simp add: v3_sample_pending)
  show "last_event_text (fst (v3_sample bl sl th cd s x)) = last_event_text s"
    using ne by (rule v3_sample_text)
  show "last_blink_ts (fst (v3_sample bl sl th cd s x)) = last_blink_ts s"
    using ne by (simp add: v3_sample_last_ts)
next
  assume a: "blink_active t"
  then have ne: "\<not> v4_enter th cd t x" by (simp add: v4_enter_def)
  show "snd (v4_sample th cd t x) = None"
    using ne by (simp add: v4_sample_event)
  show "blink_pending (fst (v4_sample th cd t x)) = blink_pending t"
    using v4_sample_quiet [OF ne] by simp
  show "last_event_text (fst (v4_sample th cd t x)) = last_event_text t"
    using v4_sample_quiet [OF ne] by simp
  show "last_blink_ts (fst (v4_sample th cd t x)) = last_blink_ts t"
    using ne by (simp add: v4_sample_last_ts)
next
  assume "\<forall>s' \<in> set (v3_trace bl sl th cd s xs). blink_active s'"
  then show "length (v3_events bl sl th cd s xs) \<le> 1"
    by (rule v3_excursion_one_event)
next
  assume "\<forall>t' \<in> set (v4_trace th cd t xs). blink_active t'"
  then show "length (v4_events th cd t xs) \<le> 1"
    by (rule v4_excursion_one_event)
next
  assume "0 \<le> th \<and> v3_all_onset bl sl th cd s xs"
  then show "length (v3_events bl sl th cd s xs) \<le> 1"
    using v3_all_onset_events [of th bl sl cd s xs] by simp
next
  assume "\<forall>y \<in> set xs. th < \<bar>fst y\<bar>"
  then show "length (v4_events th cd t xs) \<le> 1"
    using v4_all_onset_events [of xs th t cd] by simp
qed


lemma v3_no_offset_stays_active:
  "blink_active s \<Longrightarrow> v3_no_offset bl sl th cd s xs \<Longrightarrow>
     (\<forall>s' \<in> set (v3_trace bl sl th cd s xs). blink_active s') \<and>
     v3_events bl sl th cd s xs = []"
proof (induction xs arbitrary: s)
  case Nil
  then show ?case by simp
next
  case (Cons x xs)
  let ?s' = "fst (v3_sample bl sl th cd s x)"
  have act: "blink_active ?s'"
    using Cons.prems by (simp add: v3_sample_active)
  have none: "snd (v3_sample bl sl th cd s x) = None"
    using Cons.prems(1) by (simp add: v3_sample_event v3_enter_def)
  have "(\<forall>s' \<in> set (v3_trace bl sl th cd ?s' xs). blink_active s') \<and>
      v3_events bl sl th cd ?s' xs = []"
    using act Cons.prems(2) by (intro Cons.IH) simp_all
  then show ?case
    using act none by simp
qed

lemma v4_no_offset_stays_active:
  "blink_active s \<Longrightarrow> \<forall>y \<in> set xs. \<not> \<bar>fst y\<bar> < th * BLINK_OFF_FACTOR \<Longrightarrow>
     (\<forall>s' \<in> set (v4_trace th cd s xs). blink_active s') \<and> v4_events th cd s xs = []"
proof (induction xs arbitrary: s)
  case Nil
  then show ?case by simp
next
  case (Cons x xs)
  let ?s' = "fst (v4_sample th cd s x)"
  have act: "blink_active ?s'"
    using Cons.prems by (simp add: v4_sample_active)
  have none: "snd (v4_sample th cd s x) = None"
    using Cons.prems(1) by (simp add: v4_sample_event v4_enter_def)
  have "(\<forall>s' \<in> set (v4_trace th cd ?s' xs). blink_active s') \<and> v4_events th cd ?s' xs = []"
    using act Cons.prems(2) by (intro Cons.IH) simp_all
  then show ?case
    using act none by simp
qed

text \<open>
  C2. From the Active state, the state after a sample is Quiescent exactly when the baseline
  window is full and \<open>magnitude - baseline < threshold * BLINK_OFF_FACTOR\<close> (in
  app\_v4\_bp-filter.py, which keeps no baseline, when \<open>magnitude < threshold *
  BLINK_OFF_FACTOR\<close>). The time stamp of the sample and the cooldown play no part in it, so a
  run of samples none of which meets the exit condition stays Active throughout, whatever
  its time stamps, and emits nothing. The off factor is the constant 0.3, which lies
  strictly between 0 and 1, so for a positive threshold the exit threshold is strictly
  below the onset threshold.
\<close>

theorem hysteresis_exit_only_below_offset:
  "(blink_active s \<longrightarrow>
      (\<not> blink_active (fst (v3_sample bl sl th cd s x))) =
        (bl \<le> length (v3_window bl s x) \<and>
         (\<exists>b. np_median (v3_window bl s x) = Some b \<and> \<bar>fst x\<bar> - b < th * BLINK_OFF_FACTOR))) \<and>
   (blink_active t \<longrightarrow>
      (\<not> blink_active (fst (v4_sample th cd t x))) = (\<bar>fst x\<bar> < th * BLINK_OFF_FACTOR)) \<and>
   (blink_active s \<longrightarrow>
      blink_active (fst (v3_sample bl sl th cd s (v, now))) =
        blink_active (fst (v3_sample bl sl th cd' s (v, now')))) \<and>
   (blink_active t \<longrightarrow>
      blink_active (fst (v4_sample th cd t (v, now))) =
        blink_active (fst (v4_sample th cd' t (v, now')))) \<and>
   (blink_active s \<and> v3_no_offset bl sl th cd s xs \<longrightarrow>
      (\<forall>s' \<in> set (v3_trace bl sl th cd s xs). blink_active s') \<and>
      v3_events bl sl th cd s xs = []) \<and>
   (blink_active t \<and> (\<forall>y \<in> set xs. \<not> \<bar>fst y\<bar> < th * BLINK_OFF_FACTOR) \<longrightarrow>
      (\<forall>t' \<in> set (v4_trace th cd t xs). blink_active t') \<and> v4_events th cd t xs = []) \<and>
   (0 < th \<longrightarrow> th * BLINK_OFF_FACTOR < th) \<and>
   0 < BLINK_OFF_FACTOR \<and> BLINK_OFF_FACTOR < 1"
proof (intro conjI impI)
  assume a: "blink_active s"
  have "v3_offset bl th s x =
      (bl \<le> length (v3_window bl s x) \<and>
       (\<exists>b. np_median (v3_window bl s x) = Some b \<and> \<bar>fst x\<bar> - b < th * BLINK_OFF_FACTOR))"
    by (auto simp: v3_offset_def v3_diff_def nan_lt_def split: option.splits)
  then show "(\<not> blink_active (fst (v3_sample bl sl th cd s x))) =
      (bl \<le> length (v3_window bl s x) \<and>
       (\<exists>b. np_median (v3_window bl s x) = Some b \<and> \<bar>fst x\<bar> - b < th * BLINK_OFF_FACTOR))"
    using a by (simp add: v3_sample_active)
next
  assume "blink_active t"
  then show "(\<not> blink_active (fst (v4_sample th cd t x))) = (\<bar>fst x\<bar> < th * BLINK_OFF_FACTOR)"
    by (simp add: v4_sample_active v4_enter_def)
next
  assume "blink_active s"
  then show "blink_active (fst (v3_sample bl sl th cd s (v, now))) =
      blink_active (fst (v3_sample bl sl th cd' s (v, now')))"
    by (simp add: v3_sample_active v3_aux_defs)
next
  assume "blink_active t"
  then show "blink_active (fst (v4_sample th cd t (v, now))) =
      blink_active (fst (v4_sample th cd' t (v, now')))"
    by (simp add: v4_sample_active v4_enter_def)
next
  assume a: "blink_active s \<and> v3_no_offset bl sl th cd s xs"
  show "\<forall>s' \<in> set (v3_trace bl sl th cd s xs). blink_active s'"
    using a v3_no_offset_stays_active [of s bl sl th cd xs] by simp
  show "v3_events bl sl th cd s xs = []"
    using a v3_no_offset_stays_active [of s bl sl th cd xs] by simp
next
  assume a: "blink_active t \<and> (\<forall>y \<in> set xs. \<not> \<bar>fst y\<bar> < th * BLINK_OFF_FACTOR)"
  show "\<forall>t' \<in> set (v4_trace th cd t xs). blink_active t'"
    using a v4_no_offset_stays_active [of t xs th cd] by simp
  show "v4_events th cd t xs = []"
    using a v4_no_offset_stays_active [of t xs th cd] by simp
next
  assume "0 < th"
  then show "th * BLINK_OFF_FACTOR < th" by (simp add: BLINK_OFF_FACTOR_def)
next
  show "0 < BLINK_OFF_FACTOR" by (simp add: BLINK_OFF_FACTOR_def)
  show "BLINK_OFF_FACTOR < 1" by (simp add: BLINK_OFF_FACTOR_def)
qed






lemma v3_sample_warm_up:
  "length (baseline_buf s) + 1 < bl \<Longrightarrow>
     v3_sample bl sl th cd s x =
       (s\<lparr>baseline_buf := baseline_buf s @ [\<bar>fst x\<bar>],
          signal_buffer := deque_append sl (signal_buffer s) (fst x)\<rparr>, None)"
  by (simp add: v3_sample_def deque_append_def Let_def)

lemma v3_warm_up_run:
  "length (baseline_buf s) + length xs < bl \<Longrightarrow>
     v3_events bl sl th cd s xs = [] \<and>
     baseline_buf (v3_loop bl sl th cd s xs) = baseline_buf s @ map (\<lambda>x. \<bar>fst x\<bar>) xs \<and>
     blink_active (v3_loop bl sl th cd s xs) = blink_active s \<and>
     last_blink_ts (v3_loop bl sl th cd s xs) = last_blink_ts s \<and>
     blink_pending (v3_loop bl sl th cd s xs) = blink_pending s \<and>
     last_event_text (v3_loop bl sl th cd s xs) = last_event_text s"
proof (induction xs arbitrary: s)
  case Nil
  then show ?case by simp
next
  case (Cons x xs)
  let ?s' = "s\<lparr>baseline_buf := baseline_buf s @ [\<bar>fst x\<bar>],
          signal_buffer := deque_append sl (signal_buffer s) (fst x)\<rparr>"
  have step: "v3_sample bl sl th cd s x = (?s', None)"
    using Cons.prems by (intro v3_sample_warm_up) simp
  have "length (baseline_buf ?s') + length xs < bl"
    using Cons.prems by simp
  from Cons.IH [OF this] show ?case
    by (simp add: step)
qed

lemma v2_sample_warm_up:
  "length (v2_baseline_buf u) + 1 < bl \<Longrightarrow>
     v2_sample bl now u v = (u\<lparr>v2_baseline_buf := v2_baseline_buf u @ [\<bar>v\<bar>]\<rparr>, None)"
  by (simp add: v2_sample_def deque_append_def Let_def)

lemma v2_warm_up_run:
  "length (v2_baseline_buf u) + length vs < bl \<Longrightarrow>
     v2_events bl now u vs = [] \<and>
     v2_baseline_buf (v2_loop bl now u vs) = v2_baseline_buf u @ map abs vs \<and>
     v2_last_blink_ts (v2_loop bl now u vs) = v2_last_blink_ts u"
proof (induction vs arbitrary: u)
  case Nil
  then show ?case by simp
next
  case (Cons v vs)
  let ?u' = "u\<lparr>v2_baseline_buf := v2_baseline_buf u @ [\<bar>v\<bar>]\<rparr>"
  have step: "v2_sample bl now u v = (?u', None)"
    using Cons.prems by (intro v2_sample_warm_up) simp
  have "length (v2_baseline_buf ?u') + length vs < bl"
    using Cons.prems by simp
  from Cons.IH [OF this] show ?case
    by (simp add: step)
qed

text \<open>
  C4. A sample that leaves the baseline window with fewer than \<^verbatim>\<open>baseline_len\<close> samples is
  appended to the window and skipped: no event, and nothing but the buffers changes,
  whatever its magnitude. Hence a run that does not fill the window emits no event, in
  app\_v3.py and in EEG/blink\_detection\_v2.py.
\<close>

theorem warm_up_emits_nothing:
  "(length (v3_window bl s x) < bl \<longrightarrow>
      snd (v3_sample bl sl th cd s x) = None \<and>
      baseline_buf (fst (v3_sample bl sl th cd s x)) = baseline_buf s @ [\<bar>fst x\<bar>] \<and>
      trigger.truncate (fst (v3_sample bl sl th cd s x)) = trigger.truncate s) \<and>
   (length (baseline_buf s) + length xs < bl \<longrightarrow>
      v3_events bl sl th cd s xs = [] \<and>
      baseline_buf (v3_loop bl sl th cd s xs) = baseline_buf s @ map (\<lambda>x. \<bar>fst x\<bar>) xs \<and>
      trigger.truncate (v3_loop bl sl th cd s xs) = trigger.truncate s) \<and>
   (length (deque_append bl (v2_baseline_buf u) \<bar>v\<bar>) < bl \<longrightarrow>
      snd (v2_sample bl now u v) = None \<and>
      fst (v2_sample bl now u v) = u\<lparr>v2_baseline_buf := v2_baseline_buf u @ [\<bar>v\<bar>]\<rparr>) \<and>
   (length (v2_baseline_buf u) + length vs < bl \<longrightarrow>
      v2_events bl now u vs = [] \<and>
      v2_baseline_buf (v2_loop bl now u vs) = v2_baseline_buf u @ map abs vs \<and>
      v2_last_blink_ts (v2_loop bl now u vs) = v2_last_blink_ts u)"
proof (intro conjI impI)
  assume a: "length (v3_window bl s x) < bl"
  then have b: "length (baseline_buf s) + 1 < bl"
    by (simp add: v3_window_def deque_append_def Let_def split: if_splits)
  show "snd (v3_sample bl sl th cd s x) = None"
    by (simp add: v3_sample_warm_up [OF b])
  show "baseline_buf (fst (v3_sample bl sl th cd s x)) = baseline_buf s @ [\<bar>fst x\<bar>]"
    by (simp add: v3_sample_warm_up [OF b])
  show "trigger.truncate (fst (v3_sample bl sl th cd s x)) = trigger.truncate s"
    by (simp add: v3_sample_warm_up [OF b] trigger.truncate_def)
next
  assume a: "length (baseline_buf s) + length xs < bl"
  show "v3_events bl sl th cd s xs = []"
    using v3_warm_up_run [OF a] by simp
  show "baseline_buf (v3_loop bl sl th cd s xs) = baseline_buf s @ map (\<lambda>x. \<bar>fst x\<bar>) xs"
    using v3_warm_up_run [OF a] by simp
  show "trigger.truncate (v3_loop bl sl th cd s xs) = trigger.truncate s"
    using v3_warm_up_run [OF a, of sl th cd] by (simp add: trigger.truncate_def)
next
  assume a: "length (deque_append bl (v2_baseline_buf u) \<bar>v\<bar>) < bl"
  then have b: "length (v2_baseline_buf u) + 1 < bl"
    by (simp add: deque_append_def Let_def split: if_splits)
  show "snd (v2_sample bl now u v) = None"
    by (simp add: v2_sample_warm_up [OF b])
  show "fst (v2_sample bl now u v) = u\<lparr>v2_baseline_buf := v2_baseline_buf u @ [\<bar>v\<bar>]\<rparr>"
    by (simp add: v2_sample_warm_up [OF b])
next
  assume a: "length (v2_baseline_buf u) + length vs < bl"
  show "v2_events bl now u vs = []"
    using v2_warm_up_run [OF a] by simp
  show "v2_baseline_buf (v2_loop bl now u vs) = v2_baseline_buf u @ map abs vs"
    using v2_warm_up_run [OF a] by simp
  show "v2_last_blink_ts (v2_loop bl now u vs) = v2_last_blink_ts u"
    using v2_warm_up_run [OF a] by simp
qed


lemma v3_onset_iff:
  "v3_onset bl th s x =
     (bl \<le> length (v3_window bl s x) \<and>
      (\<exists>b. np_median (v3_window bl s x) = Some b \<and> th < \<bar>fst x\<bar> - b \<and> th < \<bar>fst x\<bar>))"
  by (auto simp: v3_onset_def v3_diff_def over_on_v3_def nan_gt_def split: option.splits)

lemma v2_sample_event:
  "(snd (v2_sample bl now u v) \<noteq> None) =
     (bl \<le> length (v2_window bl u v) \<and> v2_window bl u v \<noteq> [] \<and>
      THRESH_UV < \<bar>v\<bar> - np_mean (v2_window bl u v) \<and> MIN_ABS_UV < \<bar>v\<bar> \<and>
      BLINK_DEBOUNCE_S \<le> now - v2_last_blink_ts u)"
  by (auto simp: v2_sample_def v2_window_def nan_gt_def Let_def)

text \<open>
  C5. The onset condition is \<open>magnitude - baseline > threshold\<close> together with
  \<open>magnitude > threshold\<close>. In app\_v3.py a step emits an event exactly when the window is
  full, both comparisons hold, the state is Quiescent and the cooldown has passed, and a
  step that takes the state from Quiescent to Active has emitted one; in
  EEG/blink\_detection\_v2.py a step emits exactly when the window is full, both comparisons
  hold (against two constants of the same value) and the debounce time has passed.
\<close>

theorem onset_needs_both_conditions:
  "over_on_v3 th m (Some (m - b)) = (th < m - b \<and> th < m) \<and>
   (snd (v3_sample bl sl th cd s x) \<noteq> None) =
     (bl \<le> length (v3_window bl s x) \<and>
      (\<exists>b. np_median (v3_window bl s x) = Some b \<and> th < \<bar>fst x\<bar> - b \<and> th < \<bar>fst x\<bar>) \<and>
      \<not> blink_active s \<and> cd \<le> snd x - last_blink_ts s) \<and>
   (\<not> blink_active s \<and> blink_active (fst (v3_sample bl sl th cd s x)) \<longrightarrow>
      snd (v3_sample bl sl th cd s x) = Some (snd x) \<and>
      (\<exists>b. np_median (v3_window bl s x) = Some b \<and> th < \<bar>fst x\<bar> - b \<and> th < \<bar>fst x\<bar>)) \<and>
   (snd (v2_sample bl now u v) \<noteq> None) =
     (bl \<le> length (v2_window bl u v) \<and> v2_window bl u v \<noteq> [] \<and>
      THRESH_UV < \<bar>v\<bar> - np_mean (v2_window bl u v) \<and> MIN_ABS_UV < \<bar>v\<bar> \<and>
      BLINK_DEBOUNCE_S \<le> now - v2_last_blink_ts u) \<and>
   THRESH_UV = MIN_ABS_UV"
proof (intro conjI impI)
  show "over_on_v3 th m (Some (m - b)) = (th < m - b \<and> th < m)"
    by (simp add: over_on_v3_def nan_gt_def)
  show "(snd (v3_sample bl sl th cd s x) \<noteq> None) =
     (bl \<le> length (v3_window bl s x) \<and>
      (\<exists>b. np_median (v3_window bl s x) = Some b \<and> th < \<bar>fst x\<bar> - b \<and> th < \<bar>fst x\<bar>) \<and>
      \<not> blink_active s \<and> cd \<le> snd x - last_blink_ts s)"
    using v3_onset_iff [of bl th s x] by (simp add: v3_sample_event v3_enter_def)
  show "(snd (v2_sample bl now u v) \<noteq> None) =
     (bl \<le> length (v2_window bl u v) \<and> v2_window bl u v \<noteq> [] \<and>
      THRESH_UV < \<bar>v\<bar> - np_mean (v2_window bl u v) \<and> MIN_ABS_UV < \<bar>v\<bar> \<and>
      BLINK_DEBOUNCE_S \<le> now - v2_last_blink_ts u)"
    by (rule v2_sample_event)
  show "THRESH_UV = MIN_ABS_UV"
    by (simp add: THRESH_UV_def MIN_ABS_UV_def)
next
  assume a: "\<not> blink_active s \<and> blink_active (fst (v3_sample bl sl th cd s x))"
  then have e: "v3_enter bl th cd s x"
    by (auto simp: v3_sample_active)
  then show "snd (v3_sample bl sl th cd s x) = Some (snd x)"
    by (simp add: v3_sample_event)
  from e have "v3_onset bl th s x" by (simp add: v3_enter_def)
  then show "\<exists>b. np_median (v3_window bl s x) = Some b \<and> th < \<bar>fst x\<bar> - b \<and> th < \<bar>fst x\<bar>"
    by (simp add: v3_onset_iff)
qed


section \<open>The detectors on the concrete runs\<close>

text \<open>
  Scenario A: the single spike emits exactly one event, at the first of its five samples,
  and the state is Quiescent again once the magnitude is back at 10.
\<close>

lemma scenario_A_one_event:
  "v3_events 40 2500 150 (35 / 100) v3_start scenario_A = [clock 40] \<and>
   map blink_active (v3_trace 40 2500 150 (35 / 100) v3_start (take 46 scenario_A)) =
     replicate 40 False @ replicate 5 True @ [False] \<and>
   \<not> blink_active (v3_loop 40 2500 150 (35 / 100) v3_start scenario_A)"
  by code_simp

theorem no_event_while_active_witness:
  "blink_active v3_in_blink \<and>
   snd (v3_sample 40 2500 150 (35 / 100) v3_in_blink (300, clock 41)) = None \<and>
   blink_pending (fst (v3_sample 40 2500 150 (35 / 100) v3_in_blink (300, clock 41))) =
     blink_pending v3_in_blink \<and>
   blink_active v4_in_blink \<and>
   snd (v4_sample 150 (35 / 100) v4_in_blink (300, clock 41)) = None \<and>
   list_all blink_active (v3_trace 40 2500 150 (35 / 100) v3_ready spike) \<and>
   list_all blink_active (v4_trace 150 (35 / 100) v4_start spike) \<and>
   (0::real) \<le> 150 \<and> v3_all_onset 40 2500 150 (35 / 100) v3_ready spike \<and>
   list_all (\<lambda>y. 150 < \<bar>fst y\<bar>) spike \<and>
   length spike = 5 \<and>
   v3_events 40 2500 150 (35 / 100) v3_ready spike = [clock 40] \<and>
   v4_events 150 (35 / 100) v4_start spike = [clock 40] \<and>
   length (v3_events 40 2500 150 (35 / 100) v3_ready spike) \<le> 1 \<and>
   length (v4_events 150 (35 / 100) v4_start spike) \<le> 1"
proof -
  have a3: "blink_active v3_in_blink" by code_simp
  have a4: "blink_active v4_in_blink" by code_simp
  have t3: "list_all blink_active (v3_trace 40 2500 150 (35 / 100) v3_ready spike)"
    by code_simp
  have t4: "list_all blink_active (v4_trace 150 (35 / 100) v4_start spike)"
    by code_simp
  have o3: "v3_all_onset 40 2500 150 (35 / 100) v3_ready spike" by code_simp
  have o4: "list_all (\<lambda>y. 150 < \<bar>fst y\<bar>) spike" by code_simp
  have n: "length spike = 5" by code_simp
  have e3: "v3_events 40 2500 150 (35 / 100) v3_ready spike = [clock 40]" by code_simp
  have e4: "v4_events 150 (35 / 100) v4_start spike = [clock 40]" by code_simp
  note step = no_event_while_active
    [of v3_in_blink 40 2500 150 "35 / 100" "(300, clock 41)" v4_in_blink "[]"]
  note run = no_event_while_active
    [of v3_ready 40 2500 150 "35 / 100" "(300, clock 41)" v4_start spike]
  from step a3 a4 have
    "snd (v3_sample 40 2500 150 (35 / 100) v3_in_blink (300, clock 41)) = None"
    "blink_pending (fst (v3_sample 40 2500 150 (35 / 100) v3_in_blink (300, clock 41))) =
       blink_pending v3_in_blink"
    "snd (v4_sample 150 (35 / 100) v4_in_blink (300, clock 41)) = None"
    by blast+
  moreover from run t3 t4 have
    "length (v3_events 40 2500 150 (35 / 100) v3_ready spike) \<le> 1"
    "length (v4_events 150 (35 / 100) v4_start spike) \<le> 1"
    unfolding list_all_iff by blast+
  ultimately show ?thesis
    using a3 a4 t3 t4 o3 o4 n e3 e4 by simp
qed


theorem hysteresis_exit_only_below_offset_witness:
  "blink_active v3_in_blink \<and> blink_active v4_in_blink \<and>
   v3_no_offset 40 2500 150 (35 / 100) v3_in_blink plateau \<and>
   list_all (\<lambda>y. \<not> \<bar>fst y\<bar> < 150 * BLINK_OFF_FACTOR) plateau \<and>
   (0::real) < 150 \<and>
   list_all blink_active (v3_trace 40 2500 150 (35 / 100) v3_in_blink plateau) \<and>
   list_all blink_active (v4_trace 150 (35 / 100) v4_in_blink plateau) \<and>
   v3_events 40 2500 150 (35 / 100) v3_in_blink plateau = [] \<and>
   v4_events 150 (35 / 100) v4_in_blink plateau = [] \<and>
   \<not> blink_active (fst (v3_sample 40 2500 150 (35 / 100) v3_in_blink (10, clock 41))) \<and>
   \<not> blink_active (fst (v4_sample 150 (35 / 100) v4_in_blink (10, clock 41))) \<and>
   blink_active (fst (v3_sample 40 2500 150 (35 / 100) v3_in_blink (300, 90000))) \<and>
   blink_active (fst (v4_sample 150 (35 / 100) v4_in_blink (300, 90000))) \<and>
   (150::real) * BLINK_OFF_FACTOR < 150"
proof -
  have a3: "blink_active v3_in_blink" by code_simp
  have a4: "blink_active v4_in_blink" by code_simp
  have n3: "v3_no_offset 40 2500 150 (35 / 100) v3_in_blink plateau" by code_simp
  have n4: "list_all (\<lambda>y. \<not> \<bar>fst y\<bar> < 150 * BLINK_OFF_FACTOR) plateau" by code_simp
  have w: "40 \<le> length (v3_window 40 v3_in_blink (10, clock 41))" by code_simp
  have m: "np_median (v3_window 40 v3_in_blink (10, clock 41)) = Some 10" by code_simp
  have w': "np_median (v3_window 40 v3_in_blink (300, 90000)) = Some 10" by code_simp
  have pos: "(0::real) < 150" by simp
  note T = hysteresis_exit_only_below_offset
    [of v3_in_blink 40 2500 150 "35 / 100" "(10, clock 41)" v4_in_blink
        300 "clock 41" "35 / 100" "90000" plateau]
  note U = hysteresis_exit_only_below_offset
    [of v3_in_blink 40 2500 150 "35 / 100" "(300, 90000)" v4_in_blink
        300 "clock 41" "35 / 100" "90000" plateau]
  from T a3 a4 n3 n4 have run:
    "\<forall>s' \<in> set (v3_trace 40 2500 150 (35 / 100) v3_in_blink plateau). blink_active s'"
    "\<forall>t' \<in> set (v4_trace 150 (35 / 100) v4_in_blink plateau). blink_active t'"
    "v3_events 40 2500 150 (35 / 100) v3_in_blink plateau = []"
    "v4_events 150 (35 / 100) v4_in_blink plateau = []"
    unfolding list_all_iff by blast+
  from T a3 w m have x3:
    "\<not> blink_active (fst (v3_sample 40 2500 150 (35 / 100) v3_in_blink (10, clock 41)))"
    by (simp add: BLINK_OFF_FACTOR_def)
  from T a4 have x4:
    "\<not> blink_active (fst (v4_sample 150 (35 / 100) v4_in_blink (10, clock 41)))"
    by (simp add: BLINK_OFF_FACTOR_def)
  from U a3 w' have k3:
    "blink_active (fst (v3_sample 40 2500 150 (35 / 100) v3_in_blink (300, 90000)))"
    by (simp add: BLINK_OFF_FACTOR_def)
  from U a4 have k4:
    "blink_active (fst (v4_sample 150 (35 / 100) v4_in_blink (300, 90000)))"
    by (simp add: BLINK_OFF_FACTOR_def)
  from T pos have band: "(150::real) * BLINK_OFF_FACTOR < 150" by blast
  show ?thesis
    using a3 a4 n3 n4 run x3 x4 k3 k4 band by (simp add: list_all_iff)
qed




theorem warm_up_emits_nothing_witness:
  "length (v3_window 40 v3_start (300, clock 0)) < 40 \<and>
   snd (v3_sample 40 2500 150 (35 / 100) v3_start (300, clock 0)) = None \<and>
   length (baseline_buf v3_start) + length loud_warm_up < 40 \<and>
   length loud_warm_up = 39 \<and>
   list_all (\<lambda>x. 150 < \<bar>fst x\<bar>) loud_warm_up \<and>
   v3_events 40 2500 150 (35 / 100) v3_start loud_warm_up = [] \<and>
   baseline_buf (v3_loop 40 2500 150 (35 / 100) v3_start loud_warm_up) = replicate 39 300 \<and>
   blink_pending (v3_loop 40 2500 150 (35 / 100) v3_start loud_warm_up) = False \<and>
   length (deque_append 40 (v2_baseline_buf v2_start) \<bar>300\<bar>) < 40 \<and>
   snd (v2_sample 40 (clock 0) v2_start 300) = None \<and>
   length (v2_baseline_buf v2_start) + length (replicate 39 (300::real)) < 40 \<and>
   v2_events 40 (clock 0) v2_start (replicate 39 300) = []"
proof -
  have h1: "length (v3_window 40 v3_start (300, clock 0)) < 40" by code_simp
  have h2: "length (baseline_buf v3_start) + length loud_warm_up < 40" by code_simp
  have n: "length loud_warm_up = 39" by code_simp
  have l: "list_all (\<lambda>x. 150 < \<bar>fst x\<bar>) loud_warm_up" by code_simp
  have m: "map (\<lambda>x. \<bar>fst x\<bar>) loud_warm_up = replicate 39 300" by code_simp
  have p: "blink_pending v3_start = False" "baseline_buf v3_start = []"
    by (simp_all add: v3_start_def)
  have h3: "length (deque_append 40 (v2_baseline_buf v2_start) \<bar>300\<bar>) < 40" by code_simp
  have h4: "length (v2_baseline_buf v2_start) + length (replicate 39 (300::real)) < 40"
    by (simp add: v2_start_def)
  note T = warm_up_emits_nothing
    [of 40 v3_start "(300, clock 0)" 2500 150 "35 / 100" loud_warm_up v2_start 300 "clock 0"
        "replicate 39 300"]
  from T h1 have c1: "snd (v3_sample 40 2500 150 (35 / 100) v3_start (300, clock 0)) = None"
    by blast
  from T h2 have c2: "v3_events 40 2500 150 (35 / 100) v3_start loud_warm_up = []"
    and c3: "baseline_buf (v3_loop 40 2500 150 (35 / 100) v3_start loud_warm_up) =
      baseline_buf v3_start @ map (\<lambda>x. \<bar>fst x\<bar>) loud_warm_up"
    and c4: "trigger.truncate (v3_loop 40 2500 150 (35 / 100) v3_start loud_warm_up) =
      trigger.truncate v3_start"
    by blast+
  from c4 have c5: "blink_pending (v3_loop 40 2500 150 (35 / 100) v3_start loud_warm_up) = False"
    using p(1) by (simp add: trigger.truncate_def)
  from T h3 have c6: "snd (v2_sample 40 (clock 0) v2_start 300) = None"
    by blast
  from T h4 have c7: "v2_events 40 (clock 0) v2_start (replicate 39 300) = []"
    by blast
  show ?thesis
    using h1 h2 n l h3 h4 c1 c2 c3 c5 c6 c7 m p by simp
qed

theorem onset_needs_both_conditions_witness:
  "\<not> blink_active v3_ready \<and>
   blink_active (fst (v3_sample 40 2500 150 (35 / 100) v3_ready (300, clock 40))) \<and>
   snd (v3_sample 40 2500 150 (35 / 100) v3_ready (300, clock 40)) = Some (clock 40) \<and>
   np_median (v3_window 40 v3_ready (300, clock 40)) = Some 10 \<and>
   (150::real) < \<bar>300\<bar> - 10 \<and>
   np_median (v3_window 40 v3_high_baseline (300, clock 40)) = Some 200 \<and>
   \<not> (150::real) < \<bar>300\<bar> - 200 \<and> (150::real) < \<bar>300\<bar> \<and>
   snd (v3_sample 40 2500 150 (35 / 100) v3_high_baseline (300, clock 40)) = None"
proof -
  have q: "\<not> blink_active v3_ready" by code_simp
  have a: "blink_active (fst (v3_sample 40 2500 150 (35 / 100) v3_ready (300, clock 40)))"
    by code_simp
  have m: "np_median (v3_window 40 v3_ready (300, clock 40)) = Some 10" by code_simp
  have m': "np_median (v3_window 40 v3_high_baseline (300, clock 40)) = Some 200" by code_simp
  note T = onset_needs_both_conditions
    [of 150 300 10 40 2500 "35 / 100" v3_ready "(300, clock 40)" "clock 0" v2_start 300]
  note U = onset_needs_both_conditions
    [of 150 300 10 40 2500 "35 / 100" v3_high_baseline "(300, clock 40)" "clock 0" v2_start 300]
  from T q a have e: "snd (v3_sample 40 2500 150 (35 / 100) v3_ready (300, clock 40)) =
      Some (snd (300::real, clock 40))"
    by blast
  from U have "(snd (v3_sample 40 2500 150 (35 / 100) v3_high_baseline (300, clock 40)) \<noteq> None) =
     (40 \<le> length (v3_window 40 v3_high_baseline (300, clock 40)) \<and>
      (\<exists>b. np_median (v3_window 40 v3_high_baseline (300, clock 40)) = Some b \<and>
         150 < \<bar>fst (300::real, clock 40)\<bar> - b \<and> 150 < \<bar>fst (300::real, clock 40)\<bar>) \<and>
      \<not> blink_active v3_high_baseline \<and>
      35 / 100 \<le> snd (300::real, clock 40) - last_blink_ts v3_high_baseline)"
    by blast
  then have n: "snd (v3_sample 40 2500 150 (35 / 100) v3_high_baseline (300, clock 40)) = None"
    by (simp add: m')
  show ?thesis
    using q a m m' e n by simp
qed


section \<open>Signal conditioning: results\<close>



lemma condition_v3_window_31_to_50:
  "30 < length bx \<Longrightarrow> length bx \<le> 50 \<Longrightarrow> nf \<noteq> None \<or> bp \<noteq> None \<Longrightarrow>
     condition_v3 bx bp nf = Inl ValueError"
  by (auto simp: condition_v3_def apply_filters_v3_def filtfilt_def split: option.splits)







end
